theory Spec2Isabelle
  imports Complex_Main "HOL-Library.Sublist"
begin

section \<open>Python values\<close>

text \<open>
  The two services exchange JSON-shaped Python values: the decoded reply of the vision
  model, the dict decoded from the language model's text, and the dicts the functions
  return. A \<open>str\<close> is a list of code points below 256 (the HOL character \<open>c\<close> stands
  for the code point \<open>of_char c\<close>); \<open>bytes\<close> are the same lists. An \<open>int\<close> is
  unbounded. A \<open>float\<close> is the rational number it denotes: arithmetic is exact, and
  the values \<open>nan\<close> and \<open>inf\<close> are outside the model. A \<open>dict\<close> with string keys is
  an association list in insertion order, every key once; lookup reads the first binding.
\<close>

type_synonym bytes = string

datatype pyval =
    PNone
  | PBool bool
  | PInt int
  | PFloat rat
  | PStr string
  | PList "pyval list"
  | PDict "(string \<times> pyval) list"

type_synonym pydict = "(string \<times> pyval) list"

text \<open>
  Exceptions are values. \<open>ProviderError\<close> carries the message of an exception raised by
  a client library (transport, authentication, a reply without content, an image that does
  not decode). The others are raised by the interpreter on the operations below.
\<close>

datatype exn =
    ProviderError string
  | JSONDecodeError
  | AttributeError
  | TypeError
  | ValueError
  | IndexError

text \<open>
  \<open>str(e)\<close>. The interpreter's own message texts differ between Python versions; the
  model keeps the class name for them.
\<close>

fun str_exn :: "exn \<Rightarrow> string" where
  "str_exn (ProviderError m) = m"
| "str_exn JSONDecodeError = ''JSONDecodeError''"
| "str_exn AttributeError = ''AttributeError''"
| "str_exn TypeError = ''TypeError''"
| "str_exn ValueError = ''ValueError''"
| "str_exn IndexError = ''IndexError''"

text \<open>Sequencing of statements that may raise: the first exception ends the block.\<close>

fun and_then :: "exn + 'a \<Rightarrow> ('a \<Rightarrow> exn + 'b) \<Rightarrow> exn + 'b" where
  "and_then (Inl e) f = Inl e"
| "and_then (Inr x) f = f x"

subsection \<open>Strings\<close>

text \<open>\<open>str.isspace\<close> on one code point below 256; the class \<open>\s\<close> of \<open>re\<close> is the same set.\<close>

definition isspace :: "char \<Rightarrow> bool" where
  "isspace c = (let n = (of_char c :: nat) in
     (9 \<le> n \<and> n \<le> 13) \<or> (28 \<le> n \<and> n \<le> 32) \<or> n = 133 \<or> n = 160)"

text \<open>\<open>str.lower\<close>: A-Z and the upper-case letters of Latin-1 move up by 32.\<close>

definition lower_char :: "char \<Rightarrow> char" where
  "lower_char c = (let n = (of_char c :: nat) in
     if (65 \<le> n \<and> n \<le> 90) \<or> (192 \<le> n \<and> n \<le> 222 \<and> n \<noteq> 215)
     then char_of (n + 32) else c)"

definition lower :: "string \<Rightarrow> string" where
  "lower s = map lower_char s"

text \<open>\<open>str.strip()\<close>: white space removed at both ends.\<close>

definition strip :: "string \<Rightarrow> string" where
  "strip s = rev (dropWhile isspace (rev (dropWhile isspace s)))"

text \<open>
  \<open>str.split()\<close>: the maximal runs of characters that are not white space, in order.
  \<open>cur\<close> is the run being read, reversed.
\<close>

fun split_from :: "string \<Rightarrow> string \<Rightarrow> string list" where
  "split_from cur [] = (if cur = [] then [] else [rev cur])"
| "split_from cur (c # cs) =
     (if isspace c then (if cur = [] then split_from [] cs else rev cur # split_from [] cs)
      else split_from (c # cur) cs)"

definition split :: "string \<Rightarrow> string list" where
  "split s = split_from [] s"

text \<open>\<open>sub in s\<close> for two strings.\<close>

fun contains :: "string \<Rightarrow> string \<Rightarrow> bool" where
  "contains sub [] = (sub = [])"
| "contains sub (c # cs) = (prefix sub (c # cs) \<or> contains sub cs)"

text \<open>
  \<open>re.sub(fence + r"\s*", "", s)\<close> for a literal, non-empty \<open>fence\<close>: scanning from
  the left, every occurrence of the fence is deleted together with the white space that
  follows it, and the scan goes on behind the deleted text.
\<close>

function sub_fence :: "string \<Rightarrow> string \<Rightarrow> string" where
  "sub_fence fence [] = []"
| "sub_fence fence (c # cs) =
     (if fence \<noteq> [] \<and> prefix fence (c # cs)
      then sub_fence fence (dropWhile isspace (drop (length fence) (c # cs)))
      else c # sub_fence fence cs)"
  by pat_completeness auto
termination
proof (relation "measure (\<lambda>(fence, s). length s)")
  show "wf (measure (\<lambda>(fence, s). length s))" by simp
next
  fix fence :: string and c :: char and cs :: string
  assume a: "fence \<noteq> [] \<and> prefix fence (c # cs)"
  have "length (dropWhile isspace (drop (length fence) (c # cs))) \<le> length (drop (length fence) (c # cs))"
    by (rule length_dropWhile_le)
  moreover have "length (drop (length fence) (c # cs)) < length (c # cs)"
    using a by (cases fence) auto
  ultimately show "((fence, dropWhile isspace (drop (length fence) (c # cs))), (fence, c # cs))
      \<in> measure (\<lambda>(fence, s). length s)"
    by simp
next
  fix fence :: string and c :: char and cs :: string
  show "((fence, cs), (fence, c # cs)) \<in> measure (\<lambda>(fence, s). length s)" by simp
qed

subsection \<open>Operations on values\<close>

text \<open>\<open>d.get(k, default)\<close> on a dict.\<close>

definition dict_get :: "pydict \<Rightarrow> string \<Rightarrow> pyval \<Rightarrow> pyval" where
  "dict_get d k dflt = (case map_of d k of None \<Rightarrow> dflt | Some v \<Rightarrow> v)"

text \<open>\<open>k in d\<close> on a dict.\<close>

definition has_key :: "string \<Rightarrow> pydict \<Rightarrow> bool" where
  "has_key k d = (map_of d k \<noteq> None)"

text \<open>\<open>x.get(k, default)\<close> on any value: only a dict has the method.\<close>

fun py_get :: "pyval \<Rightarrow> string \<Rightarrow> pyval \<Rightarrow> exn + pyval" where
  "py_get (PDict d) k dflt = Inr (dict_get d k dflt)"
| "py_get _ k dflt = Inl AttributeError"

text \<open>Truth value, as \<open>not x\<close> tests it.\<close>

fun truthy :: "pyval \<Rightarrow> bool" where
  "truthy PNone = False"
| "truthy (PBool b) = b"
| "truthy (PInt n) = (n \<noteq> 0)"
| "truthy (PFloat q) = (q \<noteq> 0)"
| "truthy (PStr s) = (s \<noteq> [])"
| "truthy (PList xs) = (xs \<noteq> [])"
| "truthy (PDict d) = (d \<noteq> [])"

text \<open>The numeric value of \<open>bool\<close>, \<open>int\<close> and \<open>float\<close>; nothing else is a number.\<close>

fun num_of :: "pyval \<Rightarrow> rat option" where
  "num_of (PBool b) = Some (if b then 1 else 0)"
| "num_of (PInt n) = Some (of_int n)"
| "num_of (PFloat q) = Some q"
| "num_of PNone = None"
| "num_of (PStr s) = None"
| "num_of (PList xs) = None"
| "num_of (PDict d) = None"

text \<open>
  \<open>a == b\<close>: numbers by value across the three numeric types, strings and lists
  componentwise, dicts as sets of bindings, anything else unequal.
\<close>

fun py_eq :: "pyval \<Rightarrow> pyval \<Rightarrow> bool"
  and py_eq_list :: "pyval list \<Rightarrow> pyval list \<Rightarrow> bool"
  and py_sub_dict :: "pydict \<Rightarrow> pydict \<Rightarrow> bool"
  and py_bound_eq :: "string \<Rightarrow> pyval \<Rightarrow> pydict \<Rightarrow> bool" where
  "py_eq (PList xs) (PList ys) = py_eq_list xs ys"
| "py_eq (PDict d) (PDict d') = (length d = length d' \<and> py_sub_dict d d')"
| "py_eq (PStr s) (PStr t) = (s = t)"
| "py_eq PNone PNone = True"
| "py_eq a b = (case (num_of a, num_of b) of (Some x, Some y) \<Rightarrow> x = y | _ \<Rightarrow> False)"
| "py_eq_list [] ys = (ys = [])"
| "py_eq_list (x # xs) [] = False"
| "py_eq_list (x # xs) (y # ys) = (py_eq x y \<and> py_eq_list xs ys)"
| "py_sub_dict [] d' = True"
| "py_sub_dict ((k, v) # d) d' = (py_bound_eq k v d' \<and> py_sub_dict d d')"
| "py_bound_eq k v [] = False"
| "py_bound_eq k v ((k', v') # d') = (if k = k' then py_eq v v' else py_bound_eq k v d')"

text \<open>\<open>s > t\<close> on strings: lexicographic by code point.\<close>

fun str_gt :: "string \<Rightarrow> string \<Rightarrow> bool" where
  "str_gt [] t = False"
| "str_gt (c # cs) [] = True"
| "str_gt (c # cs) (d # ds) =
     (if c = d then str_gt cs ds else (of_char d :: nat) < of_char c)"

text \<open>
  \<open>a > b\<close>: defined between two numbers, two strings and two lists (decided at the first
  position where the lists differ); every other pair raises \<open>TypeError\<close>.
\<close>

fun py_gt :: "pyval \<Rightarrow> pyval \<Rightarrow> exn + bool"
  and py_gt_list :: "pyval list \<Rightarrow> pyval list \<Rightarrow> exn + bool" where
  "py_gt (PList xs) (PList ys) = py_gt_list xs ys"
| "py_gt (PStr s) (PStr t) = Inr (str_gt s t)"
| "py_gt a b = (case (num_of a, num_of b) of (Some x, Some y) \<Rightarrow> Inr (y < x) | _ \<Rightarrow> Inl TypeError)"
| "py_gt_list [] ys = Inr False"
| "py_gt_list (x # xs) [] = Inr True"
| "py_gt_list (x # xs) (y # ys) = (if py_eq x y then py_gt_list xs ys else py_gt x y)"

text \<open>
  Iteration, as \<open>max\<close> does it over its first argument: a list gives its elements, a
  string its characters, a dict its keys; nothing else can be iterated.
\<close>

fun py_iter :: "pyval \<Rightarrow> exn + pyval list" where
  "py_iter (PList xs) = Inr xs"
| "py_iter (PStr s) = Inr (map (\<lambda>c. PStr [c]) s)"
| "py_iter (PDict d) = Inr (map (\<lambda>kv. PStr (fst kv)) d)"
| "py_iter _ = Inl TypeError"

text \<open>
  \<open>max(xs, key=f)\<close>: one scan from the left that keeps the current best item with its
  key and replaces it only by an item whose key is greater, so that among equal keys the
  first item stays. \<open>max\<close> of nothing raises \<open>ValueError\<close>.
\<close>

fun max_scan :: "(pyval \<Rightarrow> exn + pyval) \<Rightarrow> pyval \<Rightarrow> pyval \<Rightarrow> pyval list \<Rightarrow> exn + pyval" where
  "max_scan f best bestkey [] = Inr best"
| "max_scan f best bestkey (x # xs) =
     and_then (f x) (\<lambda>k.
     and_then (py_gt k bestkey) (\<lambda>greater.
       if greater then max_scan f x k xs else max_scan f best bestkey xs))"

definition py_max :: "pyval \<Rightarrow> (pyval \<Rightarrow> exn + pyval) \<Rightarrow> exn + pyval" where
  "py_max v f =
     and_then (py_iter v) (\<lambda>items.
       case items of
         [] \<Rightarrow> Inl ValueError
       | x # xs \<Rightarrow> and_then (f x) (\<lambda>k. max_scan f x k xs))"

text \<open>\<open>x * n\<close> for an int \<open>n\<close>: numbers multiply, strings and lists repeat.\<close>

fun py_mul_int :: "pyval \<Rightarrow> int \<Rightarrow> exn + pyval" where
  "py_mul_int (PBool b) n = Inr (PInt ((if b then 1 else 0) * n))"
| "py_mul_int (PInt m) n = Inr (PInt (m * n))"
| "py_mul_int (PFloat q) n = Inr (PFloat (q * of_int n))"
| "py_mul_int (PStr s) n = Inr (PStr (concat (replicate (nat n) s)))"
| "py_mul_int (PList xs) n = Inr (PList (concat (replicate (nat n) xs)))"
| "py_mul_int PNone n = Inl TypeError"
| "py_mul_int (PDict d) n = Inl TypeError"

text \<open>Rounding to the nearest integer, a tie going to the even neighbour.\<close>

definition round_half_even :: "rat \<Rightarrow> int" where
  "round_half_even q =
     (let f = \<lfloor>q\<rfloor>; d = q - of_int f in
      if d < 1 / 2 then f
      else if 1 / 2 < d then f + 1
      else if even f then f else f + 1)"

text \<open>\<open>round(x, 2)\<close> on a float.\<close>

definition round2 :: "rat \<Rightarrow> rat" where
  "round2 q = of_int (round_half_even (q * 100)) / 100"

text \<open>\<open>round(x, 2)\<close> on any value: an int (or bool) is returned as an int, unchanged.\<close>

fun py_round2 :: "pyval \<Rightarrow> exn + pyval" where
  "py_round2 (PBool b) = Inr (PInt (if b then 1 else 0))"
| "py_round2 (PInt n) = Inr (PInt n)"
| "py_round2 (PFloat q) = Inr (PFloat (round2 q))"
| "py_round2 _ = Inl TypeError"

text \<open>\<open>x.lower()\<close> and \<open>x.split()[-1]\<close> on any value: only a string has the methods.\<close>

fun py_lower :: "pyval \<Rightarrow> exn + string" where
  "py_lower (PStr s) = Inr (lower s)"
| "py_lower _ = Inl AttributeError"

fun py_split_last :: "pyval \<Rightarrow> exn + string" where
  "py_split_last (PStr s) = (case split s of [] \<Rightarrow> Inl IndexError | t # ts \<Rightarrow> Inr (last (t # ts)))"
| "py_split_last _ = Inl AttributeError"

text \<open>
  \<open>float(x)\<close>: a number converts, a string is parsed by \<open>float_of_str\<close> (the library's
  parser, see below; \<open>ValueError\<close> when it rejects the string), anything else raises
  \<open>TypeError\<close>.
\<close>

fun py_float :: "(string \<Rightarrow> rat option) \<Rightarrow> pyval \<Rightarrow> exn + rat" where
  "py_float float_of_str (PFloat q) = Inr q"
| "py_float float_of_str (PInt n) = Inr (of_int n)"
| "py_float float_of_str (PBool b) = Inr (if b then 1 else 0)"
| "py_float float_of_str (PStr s) =
     (case float_of_str s of None \<Rightarrow> Inl ValueError | Some q \<Rightarrow> Inr q)"
| "py_float float_of_str _ = Inl TypeError"

section \<open>The two providers and the library\<close>

text \<open>
  What the code reads from outside itself, in one record:
  \<^item> \<open>client\<close>: the module variable \<open>client\<close> of \<open>openai_service\<close> is set (an API key
    was configured);
  \<^item> \<open>chat_name\<close>, \<open>chat_ripeness\<close>: the outcome of
    \<open>client.chat.completions.create(...).choices[0].message.content\<close> for the name prompt
    and for the ripeness prompt, on the given image: the reply text, or the exception raised
    on the way to it (a failed request, a reply without choices or without content);
  \<^item> \<open>CLIENT\<close>: the module variable \<open>CLIENT\<close> of \<open>cv_service\<close> is set;
  \<^item> \<open>infer\<close>: the outcome of decoding and resizing the image and of
    \<open>CLIENT.infer(image, model_id=...)\<close>: the decoded reply, or the exception raised;
  \<^item> \<open>json_loads\<close>: \<open>json.loads\<close> of the standard library, with the exception it raises
    on a text it does not accept;
  \<^item> \<open>float_of_str\<close>: \<open>float\<close> on a string, \<open>None\<close> where it raises \<open>ValueError\<close>.
  Printing is not modelled.
\<close>

record world =
  client :: bool
  chat_name :: "bytes \<Rightarrow> exn + string"
  chat_ripeness :: "bytes \<Rightarrow> exn + string"
  CLIENT :: bool
  infer :: "bytes \<Rightarrow> exn + pyval"
  json_loads :: "string \<Rightarrow> exn + pyval"
  float_of_str :: "string \<Rightarrow> rat option"

section \<open>openai\_service\<close>

text \<open>\<open>re.sub(r"[^a-z\s]", "", text)\<close>: only a-z and white space stay.\<close>

definition sub_not_a_z_space :: "string \<Rightarrow> string" where
  "sub_not_a_z_space text =
     filter (\<lambda>c. (97 \<le> (of_char c :: nat) \<and> (of_char c :: nat) \<le> 122) \<or> isspace c) text"

text \<open>The body of the \<open>try\<close> in \<open>get_fruit_name\<close>.\<close>

definition get_fruit_name_try :: "world \<Rightarrow> bytes \<Rightarrow> exn + pydict" where
  "get_fruit_name_try w image_bytes =
     and_then (chat_name w image_bytes) (\<lambda>content.
       let text = lower (strip content);
           fruit_name = sub_not_a_z_space text;
           fruit_name = (case split fruit_name of [] \<Rightarrow> ''unknown'' | t # ts \<Rightarrow> t)
       in Inr [(''fruit_name'', PStr fruit_name)])"

definition get_fruit_name :: "world \<Rightarrow> bytes \<Rightarrow> exn + pydict" where
  "get_fruit_name w image_bytes =
     (if \<not> client w then Inr [(''error'', PStr ''OpenAI API not configured'')]
      else case get_fruit_name_try w image_bytes of
             Inr d \<Rightarrow> Inr d
           | Inl e \<Rightarrow> Inr [(''fruit_name'', PStr ''unknown'')])"

text \<open>The statements after \<open>json.loads\<close> has returned \<open>result\<close>.\<close>

definition ripeness_from_json :: "world \<Rightarrow> pyval \<Rightarrow> exn + pydict" where
  "ripeness_from_json w result =
     and_then (py_get result ''fruit_name'' (PStr ''unknown'')) (\<lambda>v.
     and_then (py_lower v) (\<lambda>fruit_name.
     and_then (py_get result ''ripeness'' (PStr ''unknown'')) (\<lambda>v.
     and_then (py_lower v) (\<lambda>ripeness.
     and_then (py_get result ''confidence'' (PFloat 75)) (\<lambda>v.
     and_then (py_float (float_of_str w) v) (\<lambda>confidence.
       let ripeness = (if ripeness \<notin> set [''unripe'', ''ripe'', ''overripe'']
                       then ''ripe'' else ripeness)
       in Inr [(''fruit_name'', PStr fruit_name),
               (''ripeness'', PStr ripeness),
               (''confidence'', PFloat (round2 confidence)),
               (''source'', PStr ''openai'')]))))))"

text \<open>The handler of \<open>json.JSONDecodeError\<close>: key words are looked up in the text.\<close>

definition common_fruits :: "string list" where
  "common_fruits =
     [''apple'', ''banana'', ''mango'', ''strawberry'', ''orange'',
      ''grape'', ''pear'', ''peach'', ''plum'', ''cherry'']"

definition ripeness_from_text :: "string \<Rightarrow> pydict" where
  "ripeness_from_text text =
     (let text_lower = lower text;
          ripeness = (if contains ''unripe'' text_lower then ''unripe''
                      else if contains ''overripe'' text_lower then ''overripe''
                      else if contains ''ripe'' text_lower then ''ripe''
                      else ''unknown'');
          fruit_name = (case find (\<lambda>fruit. contains fruit text_lower) common_fruits of
                          None \<Rightarrow> ''unknown''
                        | Some fruit \<Rightarrow> fruit)
      in [(''fruit_name'', PStr fruit_name),
          (''ripeness'', PStr ripeness),
          (''confidence'', PFloat 70),
          (''source'', PStr ''openai'')])"

text \<open>The text handed to \<open>json.loads\<close>: the stripped reply without its code fences.\<close>

definition unfence :: "string \<Rightarrow> string" where
  "unfence content = sub_fence ''```'' (sub_fence ''```json'' (strip content))"

text \<open>
  The body of the outer \<open>try\<close> in \<open>analyze_ripeness_with_openai\<close>. The inner \<open>try\<close>
  holds \<open>json.loads\<close> and the statements after it; its handler takes
  \<open>JSONDecodeError\<close> only, every other exception goes on to the outer handler.
\<close>

definition analyze_ripeness_try :: "world \<Rightarrow> bytes \<Rightarrow> exn + pydict" where
  "analyze_ripeness_try w image_bytes =
     and_then (chat_ripeness w image_bytes) (\<lambda>content.
       let text = unfence content in
       case and_then (json_loads w text) (ripeness_from_json w) of
         Inl JSONDecodeError \<Rightarrow> Inr (ripeness_from_text text)
       | Inl e \<Rightarrow> Inl e
       | Inr final_result \<Rightarrow> Inr final_result)"

definition analyze_ripeness_with_openai :: "world \<Rightarrow> bytes \<Rightarrow> exn + pydict" where
  "analyze_ripeness_with_openai w image_bytes =
     (if \<not> client w then Inr [(''error'', PStr ''OpenAI API not configured'')]
      else case analyze_ripeness_try w image_bytes of
             Inr d \<Rightarrow> Inr d
           | Inl e \<Rightarrow> Inr [(''error'', PStr (str_exn e))])"

section \<open>cv\_service\<close>

text \<open>
  The dict built from \<open>openai_result\<close>, written three times in \<open>analyze_image\<close> with
  a different \<open>source\<close>.
\<close>

definition report_from_openai :: "pyval \<Rightarrow> pydict \<Rightarrow> string \<Rightarrow> pydict" where
  "report_from_openai fruit_name openai_result source =
     [(''fruit_name'', fruit_name),
      (''ripeness'', dict_get openai_result ''ripeness'' (PStr ''unknown'')),
      (''confidence'', dict_get openai_result ''confidence'' (PFloat 70)),
      (''source'', PStr source)]"

text \<open>The body of the \<open>try\<close> in \<open>analyze_image\<close>.\<close>

definition analyze_image_try :: "world \<Rightarrow> bytes \<Rightarrow> pyval \<Rightarrow> exn + pydict" where
  "analyze_image_try w image_bytes fruit_name =
     and_then (infer w image_bytes) (\<lambda>result.
     and_then (py_get result ''predictions'' (PList [])) (\<lambda>preds.
       if \<not> truthy preds then
         and_then (analyze_ripeness_with_openai w image_bytes) (\<lambda>openai_result.
           if \<not> has_key ''error'' openai_result
           then Inr (report_from_openai fruit_name openai_result ''openai_fallback'')
           else Inr [(''error'',
                  PStr ''No predictions found from CV model and OpenAI fallback failed'')])
       else
         and_then (py_max preds (\<lambda>x. py_get x ''confidence'' (PInt 0))) (\<lambda>top_pred.
         and_then (py_get top_pred ''class'' (PStr ''unknown'')) (\<lambda>raw_class.
         and_then (if \<not> py_eq raw_class (PStr ''unknown'')
                   then py_split_last raw_class else Inr ''unknown'') (\<lambda>stage.
         and_then (py_get top_pred ''confidence'' (PInt 0)) (\<lambda>c.
         and_then (py_mul_int c 100) (\<lambda>c100.
         and_then (py_round2 c100) (\<lambda>confidence.
           Inr [(''fruit_name'', fruit_name),
                (''ripeness'', PStr stage),
                (''confidence'', confidence),
                (''source'', PStr ''cv_model'')]))))))))"

definition analyze_image :: "world \<Rightarrow> bytes \<Rightarrow> exn + pydict" where
  "analyze_image w image_bytes =
     and_then (get_fruit_name w image_bytes) (\<lambda>fruit_info.
       let fruit_name = dict_get fruit_info ''fruit_name'' (PStr ''unknown'') in
       if \<not> CLIENT w then
         and_then (analyze_ripeness_with_openai w image_bytes) (\<lambda>openai_result.
           if \<not> has_key ''error'' openai_result
           then Inr (report_from_openai fruit_name openai_result ''openai_primary'')
           else Inr [(''error'', PStr ''OpenAI analysis failed'')])
       else
         case analyze_image_try w image_bytes fruit_name of
           Inr d \<Rightarrow> Inr d
         | Inl e \<Rightarrow>
             and_then (analyze_ripeness_with_openai w image_bytes) (\<lambda>openai_result.
               if \<not> has_key ''error'' openai_result
               then Inr (report_from_openai fruit_name openai_result ''openai_fallback'')
               else Inr [(''error'',
                      PStr (''CV model error and OpenAI fallback failed: '' @ str_exn e))]))"

section \<open>A reference decoder\<close>

text \<open>
  \<open>json.loads\<close> and \<open>float\<close> are parameters of the model. To run the functions on
  concrete replies, this section gives a decoder for a fragment of JSON: objects, arrays,
  strings without backslash escapes, decimal numbers without exponent, \<open>true\<close>,
  \<open>false\<close>, \<open>null\<close>, separated by blanks, tabs and line ends. On a text of the fragment
  it returns what \<open>json.loads\<close> returns, and it rejects a text that is not JSON at all.
  \<open>float_of_str_ref\<close> reads an optionally signed decimal numeral. (The library
  accepts more: escapes, exponents, \<open>NaN\<close>, digit grouping.)
\<close>

definition json_ws :: "char \<Rightarrow> bool" where
  "json_ws c = ((of_char c :: nat) \<in> {9, 10, 13, 32})"

definition is_digit :: "char \<Rightarrow> bool" where
  "is_digit c = (48 \<le> (of_char c :: nat) \<and> (of_char c :: nat) \<le> 57)"

definition digits_value :: "string \<Rightarrow> nat" where
  "digits_value ds = foldl (\<lambda>a c. 10 * a + (of_char c - 48)) 0 ds"

text \<open>An unsigned numeral \<open>digits\<close> or \<open>digits.digits\<close> at the head of the text.\<close>

definition read_unsigned :: "string \<Rightarrow> (pyval \<times> string) option" where
  "read_unsigned s =
     (let ip = takeWhile is_digit s; r = dropWhile is_digit s in
      if ip = [] then None
      else
        (case r of
           [] \<Rightarrow> Some (PInt (int (digits_value ip)), r)
         | c # r' \<Rightarrow>
             if c = CHR ''.'' then
               (let fp = takeWhile is_digit r'; r'' = dropWhile is_digit r' in
                if fp = [] then None
                else Some (PFloat (of_nat (digits_value ip)
                             + of_nat (digits_value fp) / 10 ^ length fp), r''))
             else Some (PInt (int (digits_value ip)), r)))"

fun negate :: "pyval \<Rightarrow> pyval" where
  "negate (PInt n) = PInt (- n)"
| "negate (PFloat q) = PFloat (- q)"
| "negate v = v"

text \<open>A JSON number: an optional minus sign and a numeral without a superfluous leading zero.\<close>

definition leading_zero :: "string \<Rightarrow> bool" where
  "leading_zero s = (case s of c # d # r \<Rightarrow> c = CHR ''0'' \<and> is_digit d | _ \<Rightarrow> False)"

definition read_number :: "string \<Rightarrow> (pyval \<times> string) option" where
  "read_number s =
     (case s of
        [] \<Rightarrow> None
      | c # r \<Rightarrow>
          if c = CHR ''-'' then
            (if leading_zero r then None
             else map_option (\<lambda>(v, r'). (negate v, r')) (read_unsigned r))
          else if leading_zero s then None
          else read_unsigned s)"

text \<open>The rest of a string after its opening quote, up to the closing quote.\<close>

fun read_string :: "string \<Rightarrow> (string \<times> string) option" where
  "read_string [] = None"
| "read_string (c # cs) =
     (if c = CHR 0x22 then Some ([], cs)
      else if c = CHR 0x5C \<or> (of_char c :: nat) < 32 then None
      else map_option (\<lambda>(s, r). (c # s, r)) (read_string cs))"

text \<open>
  Recursive descent; the first argument bounds the number of nested calls and is started
  above the length of the text. A key that comes again replaces the earlier binding.
\<close>

fun read_value :: "nat \<Rightarrow> string \<Rightarrow> (pyval \<times> string) option"
  and read_elements :: "nat \<Rightarrow> string \<Rightarrow> (pyval list \<times> string) option"
  and read_members :: "nat \<Rightarrow> string \<Rightarrow> (pydict \<times> string) option" where
  "read_value 0 s = None"
| "read_value (Suc n) s =
     (case dropWhile json_ws s of
        [] \<Rightarrow> None
      | c # r \<Rightarrow>
          if c = CHR ''{'' then
            (case dropWhile json_ws r of
               [] \<Rightarrow> None
             | c' # r' \<Rightarrow>
                 if c' = CHR ''}'' then Some (PDict [], r')
                 else map_option (\<lambda>(d, r''). (PDict d, r'')) (read_members n r))
          else if c = CHR ''['' then
            (case dropWhile json_ws r of
               [] \<Rightarrow> None
             | c' # r' \<Rightarrow>
                 if c' = CHR '']'' then Some (PList [], r')
                 else map_option (\<lambda>(xs, r''). (PList xs, r'')) (read_elements n r))
          else if c = CHR 0x22 then map_option (\<lambda>(t, r'). (PStr t, r')) (read_string r)
          else if prefix ''true'' (c # r) then Some (PBool True, drop 4 (c # r))
          else if prefix ''false'' (c # r) then Some (PBool False, drop 5 (c # r))
          else if prefix ''null'' (c # r) then Some (PNone, drop 4 (c # r))
          else read_number (c # r))"
| "read_elements 0 s = None"
| "read_elements (Suc n) s =
     (case read_value n s of
        None \<Rightarrow> None
      | Some (v, r) \<Rightarrow>
          (case dropWhile json_ws r of
             [] \<Rightarrow> None
           | c # r' \<Rightarrow>
               if c = CHR '']'' then Some ([v], r')
               else if c = CHR '','' then
                 map_option (\<lambda>(vs, r''). (v # vs, r'')) (read_elements n r')
               else None))"
| "read_members 0 s = None"
| "read_members (Suc n) s =
     (case dropWhile json_ws s of
        [] \<Rightarrow> None
      | c # r \<Rightarrow>
          if c \<noteq> CHR 0x22 then None
          else
            (case read_string r of
               None \<Rightarrow> None
             | Some (k, r1) \<Rightarrow>
                 (case dropWhile json_ws r1 of
                    [] \<Rightarrow> None
                  | c1 # r2 \<Rightarrow>
                      if c1 \<noteq> CHR '':'' then None
                      else
                        (case read_value n r2 of
                           None \<Rightarrow> None
                         | Some (v, r3) \<Rightarrow>
                             (case dropWhile json_ws r3 of
                                [] \<Rightarrow> None
                              | c3 # r4 \<Rightarrow>
                                  if c3 = CHR ''}'' then Some ([(k, v)], r4)
                                  else if c3 = CHR '','' then
                                    map_option
                                      (\<lambda>(d, r5). (if has_key k d then d else (k, v) # d, r5))
                                      (read_members n r4)
                                  else None)))))"

definition json_loads_ref :: "string \<Rightarrow> exn + pyval" where
  "json_loads_ref s =
     (case read_value (Suc (length s)) s of
        None \<Rightarrow> Inl JSONDecodeError
      | Some (v, r) \<Rightarrow> if dropWhile json_ws r = [] then Inr v else Inl JSONDecodeError)"

definition float_of_str_ref :: "string \<Rightarrow> rat option" where
  "float_of_str_ref s =
     (let t = strip s;
          neg = (t \<noteq> [] \<and> hd t = CHR ''-'');
          u = (if t \<noteq> [] \<and> (hd t = CHR ''-'' \<or> hd t = CHR ''+'') then tl t else t)
      in case read_unsigned u of
           None \<Rightarrow> None
         | Some (v, r) \<Rightarrow>
             if r \<noteq> [] then None
             else map_option (\<lambda>q. if neg then - q else q) (num_of v))"

section \<open>Notions of the specification\<close>

text \<open>A result that carries the one key \<open>error\<close> with a message.\<close>

definition error_result :: "pydict \<Rightarrow> bool" where
  "error_result d = (case d of [(k, PStr m)] \<Rightarrow> k = ''error'' | _ \<Rightarrow> False)"

text \<open>The four ripeness stages of the specification.\<close>

definition enumerated_ripeness :: "string list" where
  "enumerated_ripeness = [''unripe'', ''ripe'', ''overripe'', ''unknown'']"

text \<open>The dict \<open>analyze_ripeness_with_openai\<close> returns when it does not fail.\<close>

definition openai_success :: "pydict \<Rightarrow> bool" where
  "openai_success d = (\<exists>fn rp q. d = [(''fruit_name'', PStr fn), (''ripeness'', PStr rp),
        (''confidence'', PFloat q), (''source'', PStr ''openai'')] \<and> rp \<in> set enumerated_ripeness)"

text \<open>The value is a \<open>str\<close>.\<close>

definition is_str :: "pyval \<Rightarrow> bool" where
  "is_str v = (case v of PStr s \<Rightarrow> True | _ \<Rightarrow> False)"

text \<open>The value is a number (never \<open>None\<close>).\<close>

definition is_num :: "pyval \<Rightarrow> bool" where
  "is_num v = (num_of v \<noteq> None)"

text \<open>A report: exactly the four keys, in the order of the dict literal, with a name, a stage, a
  number and one of the three source tags.\<close>

definition populated_report :: "pydict \<Rightarrow> bool" where
  "populated_report d =
     (map fst d = [''fruit_name'', ''ripeness'', ''confidence'', ''source'']
      \<and> is_str (dict_get d ''fruit_name'' PNone)
      \<and> is_str (dict_get d ''ripeness'' PNone)
      \<and> is_num (dict_get d ''confidence'' PNone)
      \<and> dict_get d ''source'' PNone
          \<in> set [PStr ''cv_model'', PStr ''openai_primary'', PStr ''openai_fallback''])"

text \<open>The report built from the predictions of the vision model.\<close>

definition cv_report :: "pyval \<Rightarrow> pydict \<Rightarrow> bool" where
  "cv_report fn d = (\<exists>stage c. d = [(''fruit_name'', fn), (''ripeness'', PStr stage),
       (''confidence'', c), (''source'', PStr ''cv_model'')] \<and> is_num c)"








text \<open>In the words of the specification, "the first match found in text order": the text is read from
  the left, and the first position at which one of the names starts decides.\<close>

fun first_match_in_text_order :: "string list \<Rightarrow> string \<Rightarrow> string option" where
  "first_match_in_text_order names [] = None"
| "first_match_in_text_order names (c # cs) =
     (case find (\<lambda>name. prefix name (c # cs)) names of
        Some name \<Rightarrow> Some name
      | None \<Rightarrow> first_match_in_text_order names cs)"

section \<open>Example worlds\<close>

text \<open>The fenced reply of the specification's example.\<close>

definition fenced_reply :: string where
  "fenced_reply = ''```json'' @ [CHR 0x0A]
     @ ''{\"fruit_name\":\"Mango\",\"ripeness\":\"ROTTEN\",\"confidence\":\"88\"}''
     @ [CHR 0x0A] @ ''```''"

text \<open>The two predictions of the specification's example.\<close>

definition two_predictions :: pyval where
  "two_predictions = PDict [(''predictions'', PList
     [PDict [(''class'', PStr ''banana unripe''), (''confidence'', PFloat (4 / 10))],
      PDict [(''class'', PStr ''banana ripe''), (''confidence'', PFloat (91 / 100))]])]"

text \<open>A world in which both providers answer, with the reference decoder as the library.\<close>

definition example_world :: world where
  "example_world =
     \<lparr> client = True,
       chat_name = (\<lambda>image_bytes. Inr ''Banana!!''),
       chat_ripeness = (\<lambda>image_bytes. Inr fenced_reply),
       CLIENT = True,
       infer = (\<lambda>image_bytes. Inr two_predictions),
       json_loads = json_loads_ref,
       float_of_str = float_of_str_ref \<rparr>"

text \<open>The same world without the vision client.\<close>

definition cv_unavailable_world :: world where
  "cv_unavailable_world = example_world\<lparr>CLIENT := False\<rparr>"

text \<open>The vision model returns an empty list and the language model answers with bare JSON.\<close>

definition no_predictions_world :: world where
  "no_predictions_world = example_world
     \<lparr> chat_ripeness :=
         (\<lambda>image_bytes. Inr ''{\"fruit_name\":\"banana\",\"ripeness\":\"overripe\",\"confidence\":60}''),
       infer := (\<lambda>image_bytes. Inr (PDict [(''predictions'', PList [])])) \<rparr>"

text \<open>Both the vision model and the ripeness request fail.\<close>

definition both_fail_world :: world where
  "both_fail_world = example_world
     \<lparr> chat_ripeness := (\<lambda>image_bytes. Inl (ProviderError ''Connection error.'')),
       infer := (\<lambda>image_bytes. Inl (ProviderError ''Connection error.'')) \<rparr>"




text \<open>A reply in prose that names two fruits of the list, the later one of the list first.\<close>

definition prose_reply :: string where
  "prose_reply = ''I see a banana next to an apple; the banana looks ripe.''"

text \<open>The language model answers the ripeness prompt with that prose.\<close>

definition prose_world :: world where
  "prose_world = example_world \<lparr> chat_ripeness := (\<lambda>image_bytes. Inr prose_reply) \<rparr>"

text \<open>The prose reply of the specification's example.\<close>

definition mango_reply :: string where
  "mango_reply = ''This mango looks quite unripe and firm.''"

text \<open>The language model answers the ripeness prompt with it.\<close>

definition mango_world :: world where
  "mango_world = example_world \<lparr> chat_ripeness := (\<lambda>image_bytes. Inr mango_reply) \<rparr>"


section \<open>Properties\<close>

subsection \<open>What the functions of openai\_service return\<close>

lemma and_then_Inr_iff: "and_then m f = Inr y \<longleftrightarrow> (\<exists>x. m = Inr x \<and> f x = Inr y)"
  by (cases m) auto

lemma and_then_Inl_iff: "and_then m f = Inl e \<longleftrightarrow> (m = Inl e \<or> (\<exists>x. m = Inr x \<and> f x = Inl e))"
  by (cases m) auto

lemma error_result_iff: "error_result d \<longleftrightarrow> (\<exists>m. d = [(''error'', PStr m)])"
  unfolding error_result_def by (auto split: list.splits pyval.splits)

lemma get_fruit_name_cases:
  "get_fruit_name w b = Inr [(''error'', PStr ''OpenAI API not configured'')] \<and> \<not> client w
   \<or> (\<exists>s. get_fruit_name w b = Inr [(''fruit_name'', PStr s)] \<and> client w)"
  unfolding get_fruit_name_def get_fruit_name_try_def
  by (cases "chat_name w b") (auto simp: Let_def)

lemma ripeness_from_json_shape:
  assumes "ripeness_from_json w v = Inr d"
  shows "\<exists>fn rp q. d = [(''fruit_name'', PStr fn), (''ripeness'', PStr rp),
            (''confidence'', PFloat (round2 q)), (''source'', PStr ''openai'')]
          \<and> rp \<in> set [''unripe'', ''ripe'', ''overripe'']"
  using assms unfolding ripeness_from_json_def
  by (auto simp: and_then_Inr_iff Let_def split: if_splits)

lemma ripeness_from_text_shape:
  "\<exists>fn rp. ripeness_from_text t = [(''fruit_name'', PStr fn), (''ripeness'', PStr rp),
            (''confidence'', PFloat 70), (''source'', PStr ''openai'')]
          \<and> rp \<in> set enumerated_ripeness"
  unfolding ripeness_from_text_def enumerated_ripeness_def
  by (simp add: Let_def)

lemma analyze_ripeness_try_shape:
  assumes "analyze_ripeness_try w b = Inr d"
  shows "openai_success d"
proof -
  from assms obtain content where c: "chat_ripeness w b = Inr content"
    and r: "(case and_then (json_loads w (unfence content)) (ripeness_from_json w) of
         Inl JSONDecodeError \<Rightarrow> Inr (ripeness_from_text (unfence content))
       | Inl e \<Rightarrow> Inl e
       | Inr final_result \<Rightarrow> Inr final_result) = Inr d"
    unfolding analyze_ripeness_try_def by (auto simp: and_then_Inr_iff Let_def)
  show ?thesis
  proof (cases "and_then (json_loads w (unfence content)) (ripeness_from_json w)")
    case (Inl e)
    with r have "d = ripeness_from_text (unfence content)"
      by (cases e) auto
    then show ?thesis
      using ripeness_from_text_shape [of "unfence content"]
      unfolding openai_success_def by auto
  next
    case (Inr fr)
    with r have "fr = d" by simp
    with Inr obtain v where "ripeness_from_json w v = Inr d"
      by (auto simp: and_then_Inr_iff)
    from ripeness_from_json_shape [OF this] show ?thesis
      unfolding openai_success_def enumerated_ripeness_def by auto
  qed
qed

lemma analyze_ripeness_cases:
  "\<exists>d. analyze_ripeness_with_openai w b = Inr d \<and> (error_result d \<or> openai_success d)"
proof (cases "client w")
  case False
  then show ?thesis
    unfolding analyze_ripeness_with_openai_def by (simp add: error_result_iff)
next
  case True
  show ?thesis
  proof (cases "analyze_ripeness_try w b")
    case (Inl e)
    with True show ?thesis
      unfolding analyze_ripeness_with_openai_def by (simp add: error_result_iff)
  next
    case (Inr d)
    with True analyze_ripeness_try_shape [OF Inr] show ?thesis
      unfolding analyze_ripeness_with_openai_def by simp
  qed
qed

lemma error_result_has_key: "error_result d \<Longrightarrow> has_key ''error'' d"
  by (auto simp: error_result_iff has_key_def)

lemma openai_success_no_key: "openai_success d \<Longrightarrow> \<not> has_key ''error'' d"
  by (auto simp: openai_success_def has_key_def)

subsection \<open>What analyze\_image returns\<close>

lemma py_round2_is_num: "py_round2 v = Inr c \<Longrightarrow> is_num c"
  by (cases v) (auto simp: is_num_def)

lemma analyze_image_try_cases:
  assumes "analyze_image_try w b fn = Inr d"
  shows "(\<exists>r. analyze_ripeness_with_openai w b = Inr r \<and> openai_success r
            \<and> d = report_from_openai fn r ''openai_fallback'')
       \<or> (\<exists>r. analyze_ripeness_with_openai w b = Inr r \<and> error_result r
            \<and> d = [(''error'', PStr ''No predictions found from CV model and OpenAI fallback failed'')])
       \<or> cv_report fn d"
proof -
  from assms obtain result preds where res: "infer w b = Inr result"
    and preds: "py_get result ''predictions'' (PList []) = Inr preds"
    and rest: "(if \<not> truthy preds then
         and_then (analyze_ripeness_with_openai w b) (\<lambda>openai_result.
           if \<not> has_key ''error'' openai_result
           then Inr (report_from_openai fn openai_result ''openai_fallback'')
           else Inr [(''error'',
                  PStr ''No predictions found from CV model and OpenAI fallback failed'')])
       else
         and_then (py_max preds (\<lambda>x. py_get x ''confidence'' (PInt 0))) (\<lambda>top_pred.
         and_then (py_get top_pred ''class'' (PStr ''unknown'')) (\<lambda>raw_class.
         and_then (if \<not> py_eq raw_class (PStr ''unknown'')
                   then py_split_last raw_class else Inr ''unknown'') (\<lambda>stage.
         and_then (py_get top_pred ''confidence'' (PInt 0)) (\<lambda>c.
         and_then (py_mul_int c 100) (\<lambda>c100.
         and_then (py_round2 c100) (\<lambda>confidence.
           Inr [(''fruit_name'', fn),
                (''ripeness'', PStr stage),
                (''confidence'', confidence),
                (''source'', PStr ''cv_model'')]))))))) = Inr d"
    unfolding analyze_image_try_def by (auto simp: and_then_Inr_iff)
  show ?thesis
  proof (cases "truthy preds")
    case False
    from analyze_ripeness_cases [of w b] obtain r
      where r: "analyze_ripeness_with_openai w b = Inr r" "error_result r \<or> openai_success r"
      by blast
    from r(2) show ?thesis
    proof
      assume "error_result r"
      with r(1) rest False show ?thesis
        by (auto simp: error_result_has_key)
    next
      assume "openai_success r"
      with r(1) rest False show ?thesis
        by (auto simp: openai_success_no_key)
    qed
  next
    case True
    with rest have "cv_report fn d"
      unfolding cv_report_def
      by (auto simp: and_then_Inr_iff py_round2_is_num simp del: py_eq.simps)
    then show ?thesis by simp
  qed
qed

lemma get_fruit_name_total: "\<exists>fi. get_fruit_name w b = Inr fi"
  using get_fruit_name_cases [of w b] by auto

lemma analyze_ripeness_total: "\<exists>r. analyze_ripeness_with_openai w b = Inr r"
  using analyze_ripeness_cases [of w b] by auto

lemma get_fruit_name_str:
  "\<exists>fi s. get_fruit_name w b = Inr fi \<and> dict_get fi ''fruit_name'' (PStr ''unknown'') = PStr s"
  using get_fruit_name_cases [of w b] by (auto simp: dict_get_def)

lemma analyze_image_cases:
  assumes "get_fruit_name w b = Inr fi" and "fn = dict_get fi ''fruit_name'' (PStr ''unknown'')"
  shows "\<exists>d. analyze_image w b = Inr d \<and>
     (error_result d
      \<or> (CLIENT w \<and> cv_report fn d)
      \<or> (\<exists>r. analyze_ripeness_with_openai w b = Inr r \<and> openai_success r
            \<and> d = report_from_openai fn r (if CLIENT w then ''openai_fallback'' else ''openai_primary'')))"
proof -
  from analyze_ripeness_cases [of w b] obtain r
    where r: "analyze_ripeness_with_openai w b = Inr r" "error_result r \<or> openai_success r"
    by blast
  have key: "has_key ''error'' r \<longleftrightarrow> error_result r"
    using r(2) error_result_has_key openai_success_no_key by blast
  show ?thesis
  proof (cases "CLIENT w")
    case False
    with assms r key show ?thesis
      unfolding analyze_image_def
      by (auto simp: Let_def error_result_iff)
  next
    case True
    show ?thesis
    proof (cases "analyze_image_try w b fn")
      case (Inl e)
      with True assms r key show ?thesis
        unfolding analyze_image_def
        by (auto simp: Let_def error_result_iff)
    next
      case (Inr d)
      from analyze_image_try_cases [OF Inr] True
      have "error_result d \<or> (CLIENT w \<and> cv_report fn d)
        \<or> (\<exists>r. analyze_ripeness_with_openai w b = Inr r \<and> openai_success r
            \<and> d = report_from_openai fn r (if CLIENT w then ''openai_fallback'' else ''openai_primary''))"
        by (auto simp: error_result_iff)
      moreover have "analyze_image w b = Inr d"
        using True assms Inr unfolding analyze_image_def by (simp add: Let_def)
      ultimately show ?thesis by blast
    qed
  qed
qed

lemma cv_report_populated: "cv_report (PStr s) d \<Longrightarrow> populated_report d"
  unfolding cv_report_def populated_report_def
  by (auto simp: dict_get_def is_str_def)

lemma openai_report_populated:
  "openai_success r \<Longrightarrow> src \<in> {''openai_fallback'', ''openai_primary''} \<Longrightarrow>
   populated_report (report_from_openai (PStr s) r src)"
  unfolding openai_success_def populated_report_def report_from_openai_def
  by (auto simp: dict_get_def is_str_def is_num_def)

lemma not_both: "\<not> (populated_report d \<and> error_result d)"
  unfolding populated_report_def error_result_iff by auto

subsection \<open>The scan for the maximum\<close>






subsection \<open>Scaling, rounding and the stage of a label\<close>







subsection \<open>Fields of the reports\<close>

lemma report_from_openai_fields:
  assumes "openai_success r"
  shows "is_num (dict_get (report_from_openai fn r src) ''confidence'' PNone)"
    and "\<exists>rp. dict_get (report_from_openai fn r src) ''ripeness'' PNone = PStr rp
           \<and> rp \<in> set enumerated_ripeness"
    and "dict_get (report_from_openai fn r src) ''source'' PNone = PStr src"
    and "map_of (report_from_openai fn r src) ''fruit_name'' = Some fn"
    and "\<not> has_key ''error'' (report_from_openai fn r src)"
  using assms unfolding openai_success_def report_from_openai_def
  by (auto simp: dict_get_def is_num_def has_key_def)

lemma cv_report_fields:
  assumes "cv_report fn d"
  shows "is_num (dict_get d ''confidence'' PNone)"
    and "is_str (dict_get d ''ripeness'' PNone)"
    and "dict_get d ''source'' PNone = PStr ''cv_model''"
    and "map_of d ''fruit_name'' = Some fn"
  using assms unfolding cv_report_def
  by (auto simp: dict_get_def is_str_def)

subsection \<open>Tokens\<close>








subsection \<open>The decoded reply\<close>











subsection \<open>The reply that is not JSON\<close>

lemma contains_sublist: "contains sub s \<longleftrightarrow> sublist sub s"
  by (induction s) (auto simp: sublist_Cons_right)

lemma analyze_ripeness_not_json:
  assumes "client w" and "chat_ripeness w image_bytes = Inr content"
    and "json_loads w (unfence content) = Inl JSONDecodeError"
  shows "analyze_ripeness_with_openai w image_bytes = Inr (ripeness_from_text (unfence content))"
  using assms unfolding analyze_ripeness_with_openai_def analyze_ripeness_try_def
  by (simp add: Let_def)

subsection \<open>Rounding error\<close>



section \<open>The claims\<close>

subsection \<open>C1\<close>




subsection \<open>C2\<close>




subsection \<open>C3\<close>

text \<open>
  Claim C3. \<open>analyze_image\<close> always returns, and never raises: its result is either a
  report with all four fields or a dict with the single key \<open>error\<close>, never both. When the
  call to the vision model raises and the ripeness analysis of the language model fails as
  well, the result is the error.
\<close>

theorem analyze_image_one_outcome:
  "\<exists>d. analyze_image w image_bytes = Inr d
     \<and> (populated_report d \<or> error_result d)
     \<and> \<not> (populated_report d \<and> error_result d)
     \<and> (\<forall>e openai_result.
           CLIENT w \<and> infer w image_bytes = Inl e
           \<and> analyze_ripeness_with_openai w image_bytes = Inr openai_result
           \<and> has_key ''error'' openai_result
           \<longrightarrow> error_result d)"
proof -
  obtain fi s where fi: "get_fruit_name w image_bytes = Inr fi"
    "dict_get fi ''fruit_name'' (PStr ''unknown'') = PStr s"
    using get_fruit_name_str by blast
  from analyze_image_cases [OF fi(1) fi(2) [symmetric]] obtain d
    where d: "analyze_image w image_bytes = Inr d"
      and cases: "error_result d \<or> (CLIENT w \<and> cv_report (PStr s) d)
        \<or> (\<exists>r. analyze_ripeness_with_openai w image_bytes = Inr r \<and> openai_success r
            \<and> d = report_from_openai (PStr s) r
                  (if CLIENT w then ''openai_fallback'' else ''openai_primary''))"
    by blast
  have one: "populated_report d \<or> error_result d"
    using cases cv_report_populated openai_report_populated by fastforce
  have fail: "error_result d"
    if "CLIENT w" "infer w image_bytes = Inl e"
      "analyze_ripeness_with_openai w image_bytes = Inr r" "has_key ''error'' r" for e r
  proof -
    have "analyze_image_try w image_bytes fn = Inl e" for fn
      using that(2) unfolding analyze_image_try_def by simp
    then have "analyze_image w image_bytes =
        Inr [(''error'', PStr (''CV model error and OpenAI fallback failed: '' @ str_exn e))]"
      using that fi unfolding analyze_image_def by (simp add: Let_def)
    with d show ?thesis by (auto simp: error_result_iff)
  qed
  from d one not_both fail show ?thesis by blast
qed

text \<open>Both providers fail: the result is the error and not a report.\<close>

theorem analyze_image_one_outcome_witness:
  "CLIENT both_fail_world
   \<and> infer both_fail_world ''img'' = Inl (ProviderError ''Connection error.'')
   \<and> analyze_ripeness_with_openai both_fail_world ''img'' =
       Inr [(''error'', PStr ''Connection error.'')]
   \<and> analyze_image both_fail_world ''img'' =
       Inr [(''error'', PStr ''CV model error and OpenAI fallback failed: Connection error.'')]
   \<and> error_result [(''error'', PStr ''CV model error and OpenAI fallback failed: Connection error.'')]
   \<and> \<not> populated_report
         [(''error'', PStr ''CV model error and OpenAI fallback failed: Connection error.'')]"
proof -
  let ?d = "[(''error'', PStr ''CV model error and OpenAI fallback failed: Connection error.'')]"
  have h: "CLIENT both_fail_world"
    by (simp add: both_fail_world_def example_world_def)
  have i: "infer both_fail_world ''img'' = Inl (ProviderError ''Connection error.'')"
    by (simp add: both_fail_world_def example_world_def)
  have r: "analyze_ripeness_with_openai both_fail_world ''img'' =
      Inr [(''error'', PStr ''Connection error.'')]"
    by code_simp
  have a: "analyze_image both_fail_world ''img'' = Inr ?d"
    by code_simp
  have k: "has_key ''error'' [(''error'', PStr ''Connection error.'')]"
    by (simp add: has_key_def)
  from analyze_image_one_outcome [of both_fail_world "''img''"] a
  have "error_result ?d \<and> \<not> populated_report ?d"
    using h i r k by auto
  with h i r a show ?thesis by simp
qed

subsection \<open>C4\<close>

text \<open>
  Claim C4. When the vision client is not configured, \<open>analyze_image\<close> asks the language
  model for the ripeness. If that analysis succeeds, the result is a report with source
  \<open>openai_primary\<close>, the name of step 1, and the ripeness and confidence of the analysis
  (70.0 if it had none); if it fails, the result is the error \<open>OpenAI analysis failed\<close>.
\<close>

theorem openai_primary_when_cv_unavailable:
  assumes "\<not> CLIENT w"
  shows "\<exists>fruit_info openai_result.
           get_fruit_name w image_bytes = Inr fruit_info
         \<and> analyze_ripeness_with_openai w image_bytes = Inr openai_result
         \<and> (\<not> has_key ''error'' openai_result \<longrightarrow>
              analyze_image w image_bytes =
                Inr [(''fruit_name'', dict_get fruit_info ''fruit_name'' (PStr ''unknown'')),
                     (''ripeness'', dict_get openai_result ''ripeness'' (PStr ''unknown'')),
                     (''confidence'', dict_get openai_result ''confidence'' (PFloat 70)),
                     (''source'', PStr ''openai_primary'')])
         \<and> (has_key ''error'' openai_result \<longrightarrow>
              analyze_image w image_bytes = Inr [(''error'', PStr ''OpenAI analysis failed'')])"
proof -
  obtain fi where fi: "get_fruit_name w image_bytes = Inr fi"
    using get_fruit_name_total by blast
  obtain r where r: "analyze_ripeness_with_openai w image_bytes = Inr r"
    using analyze_ripeness_total by blast
  show ?thesis
    using assms fi r unfolding analyze_image_def report_from_openai_def
    by (simp add: Let_def)
qed

text \<open>The example world without the vision client.\<close>

theorem openai_primary_witness:
  "\<not> CLIENT cv_unavailable_world
   \<and> analyze_image cv_unavailable_world ''img'' =
       Inr [(''fruit_name'', PStr ''banana''), (''ripeness'', PStr ''ripe''),
            (''confidence'', PFloat 88), (''source'', PStr ''openai_primary'')]"
proof -
  have h: "\<not> CLIENT cv_unavailable_world"
    by (simp add: cv_unavailable_world_def example_world_def)
  have n: "get_fruit_name cv_unavailable_world ''img'' = Inr [(''fruit_name'', PStr ''banana'')]"
    by code_simp
  have r: "analyze_ripeness_with_openai cv_unavailable_world ''img'' =
      Inr [(''fruit_name'', PStr ''mango''), (''ripeness'', PStr ''ripe''),
           (''confidence'', PFloat 88), (''source'', PStr ''openai'')]"
    by code_simp
  from openai_primary_when_cv_unavailable [OF h, of "''img''"] n r h show ?thesis
    by (auto simp: has_key_def dict_get_def)
qed

subsection \<open>C5\<close>

text \<open>
  Claim C5. When the vision client is configured but gives no usable result, because the
  call raises or because the reply has no predictions, \<open>analyze_image\<close> asks the language
  model instead. If that analysis succeeds, the result is a report with source
  \<open>openai_fallback\<close>. If it fails too, the result is an error: for a reply without
  predictions \<open>No predictions found from CV model and OpenAI fallback failed\<close>, for a call
  that raised a message that names both failures.
\<close>

theorem openai_fallback_when_cv_gives_nothing:
  assumes "CLIENT w"
    and "(\<exists>e. infer w image_bytes = Inl e)
       \<or> (\<exists>result. infer w image_bytes = Inr (PDict result)
             \<and> \<not> truthy (dict_get result ''predictions'' (PList [])))"
  shows "\<exists>fruit_info openai_result.
           get_fruit_name w image_bytes = Inr fruit_info
         \<and> analyze_ripeness_with_openai w image_bytes = Inr openai_result
         \<and> (\<not> has_key ''error'' openai_result \<longrightarrow>
              analyze_image w image_bytes =
                Inr [(''fruit_name'', dict_get fruit_info ''fruit_name'' (PStr ''unknown'')),
                     (''ripeness'', dict_get openai_result ''ripeness'' (PStr ''unknown'')),
                     (''confidence'', dict_get openai_result ''confidence'' (PFloat 70)),
                     (''source'', PStr ''openai_fallback'')])
         \<and> (has_key ''error'' openai_result \<longrightarrow>
              (\<forall>e. infer w image_bytes = Inl e \<longrightarrow>
                 analyze_image w image_bytes =
                   Inr [(''error'', PStr (''CV model error and OpenAI fallback failed: '' @ str_exn e))])
            \<and> (\<forall>result. infer w image_bytes = Inr result \<longrightarrow>
                 analyze_image w image_bytes =
                   Inr [(''error'', PStr ''No predictions found from CV model and OpenAI fallback failed'')]))"
proof -
  obtain fi where fi: "get_fruit_name w image_bytes = Inr fi"
    using get_fruit_name_total by blast
  obtain r where r: "analyze_ripeness_with_openai w image_bytes = Inr r"
    using analyze_ripeness_total by blast
  from assms(2) show ?thesis
  proof
    assume "\<exists>e. infer w image_bytes = Inl e"
    then obtain e where e: "infer w image_bytes = Inl e" ..
    then have "analyze_image_try w image_bytes fn = Inl e" for fn
      unfolding analyze_image_try_def by simp
    with assms(1) fi r e show ?thesis
      unfolding analyze_image_def report_from_openai_def
      by (simp add: Let_def)
  next
    assume "\<exists>result. infer w image_bytes = Inr (PDict result)
             \<and> \<not> truthy (dict_get result ''predictions'' (PList []))"
    then obtain result where res: "infer w image_bytes = Inr (PDict result)"
      "\<not> truthy (dict_get result ''predictions'' (PList []))" by blast
    then have "analyze_image_try w image_bytes fn =
        (if \<not> has_key ''error'' r
           then Inr (report_from_openai fn r ''openai_fallback'')
           else Inr [(''error'',
                  PStr ''No predictions found from CV model and OpenAI fallback failed'')])" for fn
      unfolding analyze_image_try_def using r by simp
    with assms(1) fi r res show ?thesis
      unfolding analyze_image_def report_from_openai_def
      by (simp add: Let_def)
  qed
qed

text \<open>The example of the specification: no predictions, and the language model answers
  \<open>overripe\<close> with confidence 60.\<close>

theorem openai_fallback_witness:
  "CLIENT no_predictions_world
   \<and> infer no_predictions_world ''img'' = Inr (PDict [(''predictions'', PList [])])
   \<and> analyze_image no_predictions_world ''img'' =
       Inr [(''fruit_name'', PStr ''banana''), (''ripeness'', PStr ''overripe''),
            (''confidence'', PFloat 60), (''source'', PStr ''openai_fallback'')]"
proof -
  have h: "CLIENT no_predictions_world"
    by (simp add: no_predictions_world_def example_world_def)
  have i: "infer no_predictions_world ''img'' = Inr (PDict [(''predictions'', PList [])])"
    by (simp add: no_predictions_world_def example_world_def)
  then have z: "(\<exists>e. infer no_predictions_world ''img'' = Inl e)
       \<or> (\<exists>result. infer no_predictions_world ''img'' = Inr (PDict result)
             \<and> \<not> truthy (dict_get result ''predictions'' (PList [])))"
    by (simp add: dict_get_def)
  have n: "get_fruit_name no_predictions_world ''img'' = Inr [(''fruit_name'', PStr ''banana'')]"
    by code_simp
  have r: "analyze_ripeness_with_openai no_predictions_world ''img'' =
      Inr [(''fruit_name'', PStr ''banana''), (''ripeness'', PStr ''overripe''),
           (''confidence'', PFloat 60), (''source'', PStr ''openai'')]"
    by code_simp
  from openai_fallback_when_cv_gives_nothing [OF h z] n r h i show ?thesis
    by (auto simp: has_key_def dict_get_def)
qed

subsection \<open>C6\<close>

text \<open>
  Claim C6. The \<open>fruit_name\<close> of every report is the name that \<open>get_fruit_name\<close>
  returned in step 1, \<open>unknown\<close> if that call failed or the language model is not
  configured. It does not depend on the vision model: a second run in which only the
  availability of the vision client and its reply differ returns a report with the same name.
\<close>

theorem fruit_name_from_step_one:
  assumes "analyze_image w image_bytes = Inr d" and "\<not> has_key ''error'' d"
  shows "\<exists>fruit_info.
           get_fruit_name w image_bytes = Inr fruit_info
         \<and> map_of d ''fruit_name'' = Some (dict_get fruit_info ''fruit_name'' (PStr ''unknown''))
         \<and> ((\<not> client w \<or> (\<exists>e. chat_name w image_bytes = Inl e)) \<longrightarrow>
              map_of d ''fruit_name'' = Some (PStr ''unknown''))
         \<and> (\<forall>available reply d'.
               analyze_image (w\<lparr>CLIENT := available, infer := reply\<rparr>) image_bytes = Inr d'
               \<and> \<not> has_key ''error'' d'
               \<longrightarrow> map_of d' ''fruit_name'' = map_of d ''fruit_name'')"
proof -
  have name: "map_of d0 ''fruit_name'' = Some (dict_get fi ''fruit_name'' (PStr ''unknown''))"
    if "get_fruit_name w0 image_bytes = Inr fi" "analyze_image w0 image_bytes = Inr d0"
      "\<not> has_key ''error'' d0" for w0 fi d0
  proof -
    define fn where "fn = dict_get fi ''fruit_name'' (PStr ''unknown'')"
    from analyze_image_cases [OF that(1) fn_def] that(2)
    have "error_result d0 \<or> (CLIENT w0 \<and> cv_report fn d0)
      \<or> (\<exists>r. analyze_ripeness_with_openai w0 image_bytes = Inr r \<and> openai_success r
            \<and> d0 = report_from_openai fn r (if CLIENT w0 then ''openai_fallback'' else ''openai_primary''))"
      by auto
    then consider "error_result d0" | "cv_report fn d0"
      | r src where "openai_success r" "d0 = report_from_openai fn r src"
      by blast
    then show ?thesis
    proof cases
      case 1
      with that(3) show ?thesis using error_result_has_key by blast
    next
      case 2
      from cv_report_fields(4) [OF 2] show ?thesis by (simp add: fn_def)
    next
      case 3
      from report_from_openai_fields(4) [OF 3(1), of fn src] 3(2) show ?thesis
        by (simp add: fn_def)
    qed
  qed
  obtain fi where fi: "get_fruit_name w image_bytes = Inr fi"
    using get_fruit_name_total by blast
  have same: "get_fruit_name (w\<lparr>CLIENT := available, infer := reply\<rparr>) image_bytes
      = get_fruit_name w image_bytes" for available reply
    unfolding get_fruit_name_def get_fruit_name_try_def by simp
  have unk: "dict_get fi ''fruit_name'' (PStr ''unknown'') = PStr ''unknown''"
    if "\<not> client w \<or> (\<exists>e. chat_name w image_bytes = Inl e)"
    using that fi unfolding get_fruit_name_def get_fruit_name_try_def
    by (auto simp: dict_get_def split: if_splits)
  from name [OF fi assms] have n: "map_of d ''fruit_name'' = Some (dict_get fi ''fruit_name'' (PStr ''unknown''))" .
  have two: "map_of d' ''fruit_name'' = map_of d ''fruit_name''"
    if "analyze_image (w\<lparr>CLIENT := available, infer := reply\<rparr>) image_bytes = Inr d'"
      "\<not> has_key ''error'' d'" for available reply d'
    using name [OF _ that] same fi n by simp
  from fi n unk two show ?thesis by auto
qed

text \<open>Two runs on the example world, with and without the vision model: the name is
  \<open>banana\<close> in both, although the ripeness reply of the language model says mango.\<close>

theorem fruit_name_from_step_one_witness:
  "analyze_image example_world ''img'' =
       Inr [(''fruit_name'', PStr ''banana''), (''ripeness'', PStr ''ripe''),
            (''confidence'', PFloat 91), (''source'', PStr ''cv_model'')]
   \<and> analyze_image (example_world\<lparr>CLIENT := False, infer := (\<lambda>image_bytes. Inl (ProviderError ''off''))\<rparr>) ''img'' =
       Inr [(''fruit_name'', PStr ''banana''), (''ripeness'', PStr ''ripe''),
            (''confidence'', PFloat 88), (''source'', PStr ''openai_primary'')]
   \<and> get_fruit_name example_world ''img'' = Inr [(''fruit_name'', PStr ''banana'')]"
proof -
  let ?d = "[(''fruit_name'', PStr ''banana''), (''ripeness'', PStr ''ripe''),
            (''confidence'', PFloat 91), (''source'', PStr ''cv_model'')]"
  have a: "analyze_image example_world ''img'' = Inr ?d" by code_simp
  have k: "\<not> has_key ''error'' ?d" by (simp add: has_key_def)
  have b: "analyze_image (example_world\<lparr>CLIENT := False, infer := (\<lambda>image_bytes. Inl (ProviderError ''off''))\<rparr>) ''img'' =
       Inr [(''fruit_name'', PStr ''banana''), (''ripeness'', PStr ''ripe''),
            (''confidence'', PFloat 88), (''source'', PStr ''openai_primary'')]"
    by code_simp
  have g: "get_fruit_name example_world ''img'' = Inr [(''fruit_name'', PStr ''banana'')]"
    by code_simp
  from fruit_name_from_step_one [OF a k] a b g show ?thesis by simp
qed

subsection \<open>C7\<close>




subsection \<open>C8\<close>

text \<open>
  Claim C8, amended. When the reply, without its code fences, is rejected by \<open>json.loads\<close>,
  \<open>analyze_ripeness_with_openai\<close> returns confidence 70.0 and source \<open>openai\<close>; the
  ripeness is \<open>unripe\<close>, \<open>overripe\<close> or \<open>ripe\<close>, the first of the three, in this order,
  that occurs in the lower-cased text, and \<open>unknown\<close> if none does; the name is the first
  fruit of the fixed list, in the order of the list, that occurs in the lower-cased text,
  and \<open>unknown\<close> if none does.
\<close>

theorem keyword_scan_of_reply:
  assumes "client w" and "chat_ripeness w image_bytes = Inr content"
    and "json_loads w (unfence content) = Inl JSONDecodeError"
  shows "\<exists>fruit_name ripeness.
           analyze_ripeness_with_openai w image_bytes =
             Inr [(''fruit_name'', PStr fruit_name), (''ripeness'', PStr ripeness),
                  (''confidence'', PFloat 70), (''source'', PStr ''openai'')]
         \<and> ripeness =
             (if sublist ''unripe'' (lower (unfence content)) then ''unripe''
              else if sublist ''overripe'' (lower (unfence content)) then ''overripe''
              else if sublist ''ripe'' (lower (unfence content)) then ''ripe''
              else ''unknown'')
         \<and> ((fruit_name = ''unknown''
               \<and> (\<forall>fruit\<in>set common_fruits. \<not> sublist fruit (lower (unfence content))))
            \<or> (\<exists>i<length common_fruits.
                  fruit_name = common_fruits ! i
                \<and> sublist fruit_name (lower (unfence content))
                \<and> (\<forall>j<i. \<not> sublist (common_fruits ! j) (lower (unfence content)))))"
proof -
  define t where "t = lower (unfence content)"
  define fruit_name where "fruit_name =
     (case find (\<lambda>fruit. contains fruit t) common_fruits of
        None \<Rightarrow> ''unknown'' | Some fruit \<Rightarrow> fruit)"
  define ripeness where "ripeness =
     (if contains ''unripe'' t then ''unripe''
      else if contains ''overripe'' t then ''overripe''
      else if contains ''ripe'' t then ''ripe''
      else ''unknown'')"
  have run: "analyze_ripeness_with_openai w image_bytes =
             Inr [(''fruit_name'', PStr fruit_name), (''ripeness'', PStr ripeness),
                  (''confidence'', PFloat 70), (''source'', PStr ''openai'')]"
    unfolding analyze_ripeness_not_json [OF assms] ripeness_from_text_def
      fruit_name_def ripeness_def t_def
    by (simp add: Let_def)
  have stage: "ripeness =
             (if sublist ''unripe'' t then ''unripe''
              else if sublist ''overripe'' t then ''overripe''
              else if sublist ''ripe'' t then ''ripe''
              else ''unknown'')"
    unfolding ripeness_def contains_sublist ..
  have name: "(fruit_name = ''unknown'' \<and> (\<forall>fruit\<in>set common_fruits. \<not> sublist fruit t))
            \<or> (\<exists>i<length common_fruits.
                  fruit_name = common_fruits ! i
                \<and> sublist fruit_name t
                \<and> (\<forall>j<i. \<not> sublist (common_fruits ! j) t))"
  proof (cases "find (\<lambda>fruit. contains fruit t) common_fruits")
    case None
    then have "\<forall>fruit\<in>set common_fruits. \<not> sublist fruit t"
      by (simp add: find_None_iff contains_sublist)
    moreover from None have "fruit_name = ''unknown''" by (simp add: fruit_name_def)
    ultimately show ?thesis by blast
  next
    case (Some fruit)
    then obtain i where "i < length common_fruits" "contains (common_fruits ! i) t"
      "fruit = common_fruits ! i" "\<forall>j<i. \<not> contains (common_fruits ! j) t"
      unfolding find_Some_iff by blast
    moreover from Some have "fruit_name = fruit" by (simp add: fruit_name_def)
    ultimately show ?thesis unfolding contains_sublist by blast
  qed
  from run stage name show ?thesis unfolding t_def by blast
qed

text \<open>The prose example of the specification.\<close>

theorem keyword_scan_witness:
  "client mango_world \<and> chat_ripeness mango_world ''img'' = Inr mango_reply
   \<and> json_loads mango_world (unfence mango_reply) = Inl JSONDecodeError
   \<and> analyze_ripeness_with_openai mango_world ''img'' =
       Inr [(''fruit_name'', PStr ''mango''), (''ripeness'', PStr ''unripe''),
            (''confidence'', PFloat 70), (''source'', PStr ''openai'')]"
proof -
  have h1: "client mango_world" by (simp add: mango_world_def example_world_def)
  have h2: "chat_ripeness mango_world ''img'' = Inr mango_reply"
    by (simp add: mango_world_def example_world_def)
  have h3: "json_loads mango_world (unfence mango_reply) = Inl JSONDecodeError" by code_simp
  have v: "analyze_ripeness_with_openai mango_world ''img'' =
       Inr [(''fruit_name'', PStr ''mango''), (''ripeness'', PStr ''unripe''),
            (''confidence'', PFloat 70), (''source'', PStr ''openai'')]"
    by code_simp
  from keyword_scan_of_reply [OF h1 h2 h3] h1 h2 h3 v show ?thesis by blast
qed

text \<open>
  As it is written, with the first match in text order, the claim fails on a text that names
  \<open>banana\<close> before \<open>apple\<close>: the loop over the list stops at \<open>apple\<close>.
\<close>

theorem text_order_counterexample:
  "client prose_world \<and> chat_ripeness prose_world ''img'' = Inr prose_reply
   \<and> json_loads prose_world (unfence prose_reply) = Inl JSONDecodeError
   \<and> analyze_ripeness_with_openai prose_world ''img'' =
       Inr [(''fruit_name'', PStr ''apple''), (''ripeness'', PStr ''ripe''),
            (''confidence'', PFloat 70), (''source'', PStr ''openai'')]
   \<and> first_match_in_text_order common_fruits (lower (unfence prose_reply)) = Some ''banana''"
  by code_simp

subsection \<open>C9\<close>



subsection \<open>C10\<close>



end
